theory Spec2Isabelle
  imports Main "HOL-Library.Word"
begin

section \<open>libc/src/__support/math_extras.h: add with carry, subtract with borrow\<close>

text \<open>
  The header is a set of function templates over an unsigned integral type \<open>T\<close>.
  An unsigned type of width \<open>w\<close> is the type \<open>'w word\<close> with \<open>LENGTH('w) = w\<close>:
  \<open>+\<close> and \<open>-\<close> wrap modulo \<open>2 ^ w\<close>, \<open><\<close> compares the unsigned values, and
  \<open>uint\<close> reads a word as an unbounded integer.

  For \<open>T\<close> narrower than \<open>int\<close> (unsigned char, unsigned short) C++ first promotes
  both operands of \<open>+\<close>, \<open>-\<close> and \<open><\<close> to \<open>int\<close> and converts the result back to
  \<open>T\<close> at the initialisation \<open>T tmp = ...\<close>; that conversion reduces modulo \<open>2 ^ w\<close>,
  which is the wrapping operation on words, and the comparison of two promoted
  (non-negative) values is the unsigned comparison.

  The model covers the unsigned integer types, whose conversion from \<open>int\<close> is this
  reduction. The type \<open>bool\<close>, whose conversion maps every non-zero value to
  \<open>true\<close>, is not a word of any length and is outside the model. The results below are
  stated for every word length, which includes the widths 8, 16, 32, 64 and 128.
\<close>

subsection \<open>Result structures\<close>

text \<open>\<open>template <typename T> struct SumCarry { T sum; T carry; };\<close>
  The field \<open>sum\<close> is named \<open>sum_val\<close> here, since \<open>sum\<close> is a constant of HOL.\<close>

record 'a SumCarry =
  sum_val :: 'a
  carry :: 'a

text \<open>\<open>template <typename T> struct DiffBorrow { T diff; T borrow; };\<close>\<close>

record 'a DiffBorrow =
  diff :: 'a
  borrow :: 'a

subsection \<open>The portable functions\<close>

text \<open>The value of a \<open>bool\<close> operand of \<open>+\<close> after integral promotion.\<close>

definition bool_to_int :: "bool \<Rightarrow> int" where
  "bool_to_int p = (if p then 1 else 0)"

text \<open>
  \<^verbatim>\<open>
  add_with_carry_const(T a, T b, T carry_in) {
    T tmp = a + carry_in;
    T sum = b + tmp;
    T carry_out = (sum < b) + (tmp < a);
    return {sum, carry_out};
  }
  \<close>
  The two comparisons are added as \<open>int\<close>s and the result is converted to \<open>T\<close>.
\<close>

definition add_with_carry_const ::
  "'w::len word \<Rightarrow> 'w word \<Rightarrow> 'w word \<Rightarrow> 'w word SumCarry" where
  "add_with_carry_const a b carry_in =
     (let tmp = a + carry_in;
          sum = b + tmp;
          carry_out = word_of_int (bool_to_int (sum < b) + bool_to_int (tmp < a))
      in \<lparr>sum_val = sum, carry = carry_out\<rparr>)"

text \<open>The primary template of \<open>add_with_carry\<close> forwards to the portable function.\<close>

definition add_with_carry ::
  "'w::len word \<Rightarrow> 'w word \<Rightarrow> 'w word \<Rightarrow> 'w word SumCarry" where
  "add_with_carry a b carry_in = add_with_carry_const a b carry_in"

text \<open>
  \<^verbatim>\<open>
  sub_with_borrow_const(T a, T b, T borrow_in) {
    T tmp = a - b;
    T diff = tmp - borrow_in;
    T borrow_out = (diff > tmp) + (tmp > a);
    return {diff, borrow_out};
  }
  \<close>
\<close>

definition sub_with_borrow_const ::
  "'w::len word \<Rightarrow> 'w word \<Rightarrow> 'w word \<Rightarrow> 'w word DiffBorrow" where
  "sub_with_borrow_const a b borrow_in =
     (let tmp = a - b;
          d = tmp - borrow_in;
          borrow_out = word_of_int (bool_to_int (d > tmp) + bool_to_int (tmp > a))
      in \<lparr>diff = d, borrow = borrow_out\<rparr>)"

text \<open>The primary template of \<open>sub_with_borrow\<close> forwards to the portable function.\<close>

definition sub_with_borrow ::
  "'w::len word \<Rightarrow> 'w word \<Rightarrow> 'w word \<Rightarrow> 'w word DiffBorrow" where
  "sub_with_borrow a b borrow_in = sub_with_borrow_const a b borrow_in"

subsection \<open>The compiler primitives\<close>

text \<open>
  Modelled from the spec: the multiprecision builtins \<open>__builtin_addcb\<close>,
  \<open>__builtin_addcs\<close>, \<open>__builtin_addc\<close>, \<open>__builtin_addcl\<close>, \<open>__builtin_addcll\<close>
  that the specialisations of \<open>add_with_carry\<close> call are provided by the compiler and are
  not part of the header. The spec describes the primitive as a native add-with-carry
  that takes \<open>a\<close>, \<open>b\<close>, \<open>carry_in\<close> and yields the sum together with a carry flag
  through an out-parameter, where the engine "computes \<open>a + b + carry_in\<close> decomposed into
  a truncated sum and a 0/1 carry-out". The pair returned here is (returned sum, value
  stored through the \<open>carryout\<close> pointer): the sum is \<open>a + b + carry_in\<close> truncated to the
  width, and the flag is 1 exactly when the untruncated value does not fit the width.
\<close>

definition builtin_addc :: "'w::len word \<Rightarrow> 'w word \<Rightarrow> 'w word \<Rightarrow> 'w word \<times> 'w word" where
  "builtin_addc x y carryin =
     (word_of_int (uint x + uint y + uint carryin),
      if uint x + uint y + uint carryin < 2 ^ LENGTH('w) then 0 else 1)"

text \<open>
  Modelled from the spec: the builtins \<open>__builtin_subcb\<close>, \<open>__builtin_subcs\<close>,
  \<open>__builtin_subc\<close>, \<open>__builtin_subcl\<close>, \<open>__builtin_subcll\<close> that the specialisations of
  \<open>sub_with_borrow\<close> call are likewise provided by the compiler. The spec describes a
  native subtract-with-borrow, where the engine "computes \<open>a - b - borrow_in\<close> decomposed
  into a truncated difference and a 0/1 borrow-out": the difference is
  \<open>a - b - borrow_in\<close> truncated to the width, and the flag is 1 exactly when the
  untruncated value is negative.
\<close>

definition builtin_subc :: "'w::len word \<Rightarrow> 'w word \<Rightarrow> 'w word \<Rightarrow> 'w word \<times> 'w word" where
  "builtin_subc x y borrowin =
     (word_of_int (uint x - uint y - uint borrowin),
      if uint x - uint y - uint borrowin < 0 then 1 else 0)"

subsection \<open>The specialisations that call the primitives\<close>

text \<open>
  Each specialisation has the body
  \<^verbatim>\<open>
    SumCarry<T> result{0, 0};
    result.sum = __builtin_addc*(a, b, carry_in, &result.carry);
    return result;
  \<close>
  for one of the five standard unsigned types. The call stores the carry through the
  pointer before its return value is assigned to \<open>result.sum\<close>.
\<close>

definition add_with_carry_builtin ::
  "'w::len word \<Rightarrow> 'w word \<Rightarrow> 'w word \<Rightarrow> 'w word SumCarry" where
  "add_with_carry_builtin a b carry_in =
     (let result = \<lparr>sum_val = 0, carry = 0\<rparr>;
          (s, carryout) = builtin_addc a b carry_in;
          result = result\<lparr>carry := carryout\<rparr>;
          result = result\<lparr>sum_val := s\<rparr>
      in result)"

definition sub_with_borrow_builtin ::
  "'w::len word \<Rightarrow> 'w word \<Rightarrow> 'w word \<Rightarrow> 'w word DiffBorrow" where
  "sub_with_borrow_builtin a b borrow_in =
     (let result = \<lparr>diff = 0, borrow = 0\<rparr>;
          (d, borrowout) = builtin_subc a b borrow_in;
          result = result\<lparr>borrow := borrowout\<rparr>;
          result = result\<lparr>diff := d\<rparr>
      in result)"

text \<open>The widths of the five types are those of an LP64 target:
  unsigned char 8, unsigned short 16, unsigned int 32, unsigned long and
  unsigned long long 64 bits.\<close>

type_synonym uchar = "8 word"
type_synonym ushort = "16 word"
type_synonym uint32 = "32 word"
type_synonym ulong = "64 word"
type_synonym ulonglong = "64 word"

definition add_with_carry_uchar :: "uchar \<Rightarrow> uchar \<Rightarrow> uchar \<Rightarrow> uchar SumCarry" where
  "add_with_carry_uchar a b carry_in = add_with_carry_builtin a b carry_in"

definition add_with_carry_ushort :: "ushort \<Rightarrow> ushort \<Rightarrow> ushort \<Rightarrow> ushort SumCarry" where
  "add_with_carry_ushort a b carry_in = add_with_carry_builtin a b carry_in"

definition add_with_carry_uint :: "uint32 \<Rightarrow> uint32 \<Rightarrow> uint32 \<Rightarrow> uint32 SumCarry" where
  "add_with_carry_uint a b carry_in = add_with_carry_builtin a b carry_in"

definition add_with_carry_ulong :: "ulong \<Rightarrow> ulong \<Rightarrow> ulong \<Rightarrow> ulong SumCarry" where
  "add_with_carry_ulong a b carry_in = add_with_carry_builtin a b carry_in"

definition add_with_carry_ulonglong ::
  "ulonglong \<Rightarrow> ulonglong \<Rightarrow> ulonglong \<Rightarrow> ulonglong SumCarry" where
  "add_with_carry_ulonglong a b carry_in = add_with_carry_builtin a b carry_in"

definition sub_with_borrow_uchar :: "uchar \<Rightarrow> uchar \<Rightarrow> uchar \<Rightarrow> uchar DiffBorrow" where
  "sub_with_borrow_uchar a b borrow_in = sub_with_borrow_builtin a b borrow_in"

definition sub_with_borrow_ushort :: "ushort \<Rightarrow> ushort \<Rightarrow> ushort \<Rightarrow> ushort DiffBorrow" where
  "sub_with_borrow_ushort a b borrow_in = sub_with_borrow_builtin a b borrow_in"

definition sub_with_borrow_uint :: "uint32 \<Rightarrow> uint32 \<Rightarrow> uint32 \<Rightarrow> uint32 DiffBorrow" where
  "sub_with_borrow_uint a b borrow_in = sub_with_borrow_builtin a b borrow_in"

definition sub_with_borrow_ulong :: "ulong \<Rightarrow> ulong \<Rightarrow> ulong \<Rightarrow> ulong DiffBorrow" where
  "sub_with_borrow_ulong a b borrow_in = sub_with_borrow_builtin a b borrow_in"

definition sub_with_borrow_ulonglong ::
  "ulonglong \<Rightarrow> ulonglong \<Rightarrow> ulonglong \<Rightarrow> ulonglong DiffBorrow" where
  "sub_with_borrow_ulonglong a b borrow_in = sub_with_borrow_builtin a b borrow_in"

section \<open>Properties\<close>

subsection \<open>One wrapping step\<close>

text \<open>
  A wrapping addition or subtraction of two words differs from the integer operation by
  \<open>2 ^ width\<close> exactly when the comparison used in the source holds.
\<close>

lemma bool_to_int_range: "bool_to_int p = 0 \<or> bool_to_int p = 1"
  by (simp add: bool_to_int_def)

lemma bool_to_int_eq_iff: "bool_to_int p = bool_to_int q \<longleftrightarrow> (p \<longleftrightarrow> q)"
  by (simp add: bool_to_int_def)

lemma add_stage:
  fixes x y :: "'w::len word"
  shows "uint x + uint y = uint (x + y) + bool_to_int (x + y < x) * 2 ^ LENGTH('w)"
  by (simp add: bool_to_int_def word_less_alt uint_plus_if')

lemma add_stage_swap:
  fixes x y :: "'w::len word"
  shows "uint x + uint y = uint (y + x) + bool_to_int (y + x < x) * 2 ^ LENGTH('w)"
  using add_stage [of x y] by (simp add: add.commute)

lemma sub_stage:
  fixes x y :: "'w::len word"
  shows "uint x - uint y = uint (x - y) - bool_to_int (x - y > x) * 2 ^ LENGTH('w)"
  by (simp add: bool_to_int_def word_less_alt uint_sub_if')

lemma word_len1_cases:
  fixes x :: "'w::len word"
  assumes "LENGTH('w) = 1"
  shows "x = 0 \<or> x = 1"
proof -
  have "uint x < 2 ^ LENGTH('w)" by (rule uint_lt2p)
  with assms have "uint x < 2" by simp
  moreover have "0 \<le> uint x" by simp
  ultimately have "uint x = 0 \<or> uint x = 1" by arith
  then show ?thesis by (auto simp: word_uint_eq_iff)
qed

lemma uint_word_of_small:
  assumes "0 \<le> k" "k < 2 ^ LENGTH('w)"
  shows "uint (word_of_int k :: 'w::len word) = k"
  using assms by (simp add: uint_word_of_int)

lemma two_lt_pow_len:
  assumes "LENGTH('w::len) \<noteq> 1"
  shows "(2::int) < 2 ^ LENGTH('w)"
proof -
  have "2 \<le> LENGTH('w)" using assms len_gt_0 [where 'a='w] by arith
  then have "(2::int) ^ 2 \<le> 2 ^ LENGTH('w)" by (rule power_increasing) simp
  then show ?thesis by simp
qed

lemma one_lt_pow_len: "(1::int) < 2 ^ LENGTH('w::len)"
  by simp

subsection \<open>The portable addition: sum, carry and the integer identity\<close>

lemma add_const_sum: "sum_val (add_with_carry_const a b c) = b + (a + c)"
  by (simp add: add_with_carry_const_def Let_def)

lemma add_const_carry:
  "carry (add_with_carry_const a b c) =
     word_of_int (bool_to_int (b + (a + c) < b) + bool_to_int (a + c < a))"
  by (simp add: add_with_carry_const_def Let_def)

lemma add_const_total:
  fixes a b c :: "'w::len word"
  shows "uint a + uint b + uint c =
     uint (b + (a + c)) + (bool_to_int (b + (a + c) < b) + bool_to_int (a + c < a)) * 2 ^ LENGTH('w)"
  using add_stage [of a c] add_stage [of b "a + c"] by (simp add: algebra_simps)

lemma add_const_count_le1:
  fixes a b c :: "'w::len word"
  assumes "c = 0 \<or> c = 1"
  shows "bool_to_int (b + (a + c) < b) + bool_to_int (a + c < a) \<le> 1"
proof (cases "a + c < a")
  case False
  then show ?thesis using bool_to_int_range [of "b + (a + c) < b"] by (auto simp: bool_to_int_def)
next
  case True
  with assms have c1: "c = 1" by auto
  have "uint a + uint c = uint (a + c) + 2 ^ LENGTH('w)"
    using add_stage [of a c] True by (simp add: bool_to_int_def)
  moreover have "uint a < 2 ^ LENGTH('w)" by (rule uint_lt2p)
  moreover have "0 \<le> uint (a + c)" by simp
  moreover have "uint c = 1" using c1 by simp
  ultimately have "uint (a + c) = 0" by linarith
  then have "a + c = 0" by (simp add: word_uint_eq_iff)
  then show ?thesis by (simp add: bool_to_int_def)
qed

lemma add_const_count_le2:
  "bool_to_int (b + (a + c) < b) + bool_to_int (a + c < a) \<le> 2"
  by (simp add: bool_to_int_def)

lemma add_const_count_ge0:
  "0 \<le> bool_to_int (b + (a + c) < b) + bool_to_int (a + c < a)"
  by (simp add: bool_to_int_def)

lemma add_const_uint_carry01:
  fixes a b c :: "'w::len word"
  assumes "c = 0 \<or> c = 1"
  shows "uint (carry (add_with_carry_const a b c)) =
     bool_to_int (b + (a + c) < b) + bool_to_int (a + c < a)"
proof -
  let ?k = "bool_to_int (b + (a + c) < b) + bool_to_int (a + c < a)"
  have "?k \<le> 1" using assms by (rule add_const_count_le1)
  then have "?k < 2 ^ LENGTH('w)" using one_lt_pow_len [where 'w='w] by linarith
  with add_const_count_ge0 show ?thesis
    unfolding add_const_carry by (rule uint_word_of_small)
qed

lemma add_const_uint_carry_wide:
  fixes a b c :: "'w::len word"
  assumes "LENGTH('w) \<noteq> 1"
  shows "uint (carry (add_with_carry_const a b c)) =
     bool_to_int (b + (a + c) < b) + bool_to_int (a + c < a)"
proof -
  let ?k = "bool_to_int (b + (a + c) < b) + bool_to_int (a + c < a)"
  have "?k \<le> 2" by (rule add_const_count_le2)
  then have "?k < 2 ^ LENGTH('w)" using two_lt_pow_len [OF assms] by linarith
  with add_const_count_ge0 show ?thesis
    unfolding add_const_carry by (rule uint_word_of_small)
qed

lemma add_const_uint_carry_any:
  fixes a b c :: "'w::len word"
  shows "uint (carry (add_with_carry_const a b c)) =
     bool_to_int (b + (a + c) < b) + bool_to_int (a + c < a)"
proof (cases "LENGTH('w) = 1")
  case True
  then have "c = 0 \<or> c = 1" by (rule word_len1_cases)
  then show ?thesis by (rule add_const_uint_carry01)
next
  case False
  then show ?thesis by (rule add_const_uint_carry_wide)
qed

text \<open>
  Claim C1 (carry identity). For every width and all \<open>a\<close>, \<open>b\<close>, with \<open>carry_in\<close> equal
  to 0 or 1, the sum and the carry-out returned by \<open>add_with_carry\<close>, and by the portable
  \<open>add_with_carry_const\<close>, satisfy \<open>a + b + carry_in = sum + carry_out * 2 ^ width\<close>
  over the unbounded integers.
\<close>

theorem add_with_carry_identity:
  fixes a b carry_in :: "'w::len word"
  assumes "carry_in = 0 \<or> carry_in = 1"
  shows "uint a + uint b + uint carry_in =
           uint (sum_val (add_with_carry a b carry_in))
             + uint (carry (add_with_carry a b carry_in)) * 2 ^ LENGTH('w)
       \<and> uint a + uint b + uint carry_in =
           uint (sum_val (add_with_carry_const a b carry_in))
             + uint (carry (add_with_carry_const a b carry_in)) * 2 ^ LENGTH('w)"
  unfolding add_with_carry_def add_const_uint_carry01 [OF assms] add_const_sum
  using add_const_total [of a b carry_in] by simp

text \<open>The identity at 8 bits: \<open>200 + 100 + 1 = 45 + 1 * 256\<close>.\<close>

theorem add_with_carry_identity_witness:
  "((1 :: 8 word) = 0 \<or> (1 :: 8 word) = 1)
   \<and> uint (200 :: 8 word) + uint (100 :: 8 word) + uint (1 :: 8 word) =
       uint (sum_val (add_with_carry (200 :: 8 word) 100 1))
         + uint (carry (add_with_carry (200 :: 8 word) 100 1)) * 2 ^ LENGTH(8)
   \<and> add_with_carry (200 :: 8 word) 100 1 = \<lparr>sum_val = 45, carry = 1\<rparr>"
  using add_with_carry_identity [of "1 :: 8 word" 200 100]
  by (simp add: add_with_carry_def add_with_carry_const_def bool_to_int_def Let_def)


subsection \<open>The portable subtraction: difference, borrow and the integer identity\<close>

lemma sub_const_diff: "diff (sub_with_borrow_const a b c) = a - b - c"
  by (simp add: sub_with_borrow_const_def Let_def)

lemma sub_const_borrow:
  "borrow (sub_with_borrow_const a b c) =
     word_of_int (bool_to_int (a - b - c > a - b) + bool_to_int (a - b > a))"
  by (simp add: sub_with_borrow_const_def Let_def)

lemma sub_const_total:
  fixes a b c :: "'w::len word"
  shows "uint a - uint b - uint c =
     uint (a - b - c) - (bool_to_int (a - b - c > a - b) + bool_to_int (a - b > a)) * 2 ^ LENGTH('w)"
  using sub_stage [of a b] sub_stage [of "a - b" c] by (simp add: algebra_simps)

lemma sub_const_count_le1:
  fixes a b c :: "'w::len word"
  assumes "c = 0 \<or> c = 1"
  shows "bool_to_int (a - b - c > a - b) + bool_to_int (a - b > a) \<le> 1"
proof (cases "a - b > a")
  case False
  then show ?thesis using bool_to_int_range [of "a - b - c > a - b"] by (auto simp: bool_to_int_def)
next
  case True
  have "uint a - uint b = uint (a - b) - 2 ^ LENGTH('w)"
    using sub_stage [of a b] True by (simp add: bool_to_int_def)
  moreover have "uint b < 2 ^ LENGTH('w)" by (rule uint_lt2p)
  moreover have "0 \<le> uint a" by simp
  ultimately have pos: "1 \<le> uint (a - b)" by linarith
  have "uint c \<le> 1" using assms by auto
  with pos have "uint c \<le> uint (a - b)" by linarith
  then have "uint (a - b - c) = uint (a - b) - uint c" by (simp add: uint_sub_lem)
  moreover have "0 \<le> uint c" by simp
  ultimately have "uint (a - b - c) \<le> uint (a - b)" by linarith
  then have "\<not> a - b - c > a - b" by (simp add: word_less_alt)
  then show ?thesis by (simp add: bool_to_int_def)
qed

lemma sub_const_count_le2:
  "bool_to_int (a - b - c > a - b) + bool_to_int (a - b > a) \<le> 2"
  by (simp add: bool_to_int_def)

lemma sub_const_count_ge0:
  "0 \<le> bool_to_int (a - b - c > a - b) + bool_to_int (a - b > a)"
  by (simp add: bool_to_int_def)

lemma sub_const_uint_borrow01:
  fixes a b c :: "'w::len word"
  assumes "c = 0 \<or> c = 1"
  shows "uint (borrow (sub_with_borrow_const a b c)) =
     bool_to_int (a - b - c > a - b) + bool_to_int (a - b > a)"
proof -
  let ?k = "bool_to_int (a - b - c > a - b) + bool_to_int (a - b > a)"
  have "?k \<le> 1" using assms by (rule sub_const_count_le1)
  then have "?k < 2 ^ LENGTH('w)" using one_lt_pow_len [where 'w='w] by linarith
  with sub_const_count_ge0 show ?thesis
    unfolding sub_const_borrow by (rule uint_word_of_small)
qed

lemma sub_const_uint_borrow_wide:
  fixes a b c :: "'w::len word"
  assumes "LENGTH('w) \<noteq> 1"
  shows "uint (borrow (sub_with_borrow_const a b c)) =
     bool_to_int (a - b - c > a - b) + bool_to_int (a - b > a)"
proof -
  let ?k = "bool_to_int (a - b - c > a - b) + bool_to_int (a - b > a)"
  have "?k \<le> 2" by (rule sub_const_count_le2)
  then have "?k < 2 ^ LENGTH('w)" using two_lt_pow_len [OF assms] by linarith
  with sub_const_count_ge0 show ?thesis
    unfolding sub_const_borrow by (rule uint_word_of_small)
qed

lemma sub_const_uint_borrow_any:
  fixes a b c :: "'w::len word"
  shows "uint (borrow (sub_with_borrow_const a b c)) =
     bool_to_int (a - b - c > a - b) + bool_to_int (a - b > a)"
proof (cases "LENGTH('w) = 1")
  case True
  then have "c = 0 \<or> c = 1" by (rule word_len1_cases)
  then show ?thesis by (rule sub_const_uint_borrow01)
next
  case False
  then show ?thesis by (rule sub_const_uint_borrow_wide)
qed

text \<open>
  Claim C2 (borrow identity). For every width and all \<open>a\<close>, \<open>b\<close>, with \<open>borrow_in\<close>
  equal to 0 or 1, the difference and the borrow-out returned by \<open>sub_with_borrow\<close>, and
  by the portable \<open>sub_with_borrow_const\<close>, satisfy
  \<open>a - b - borrow_in = diff - borrow_out * 2 ^ width\<close> over the unbounded integers.
\<close>

theorem sub_with_borrow_identity:
  fixes a b borrow_in :: "'w::len word"
  assumes "borrow_in = 0 \<or> borrow_in = 1"
  shows "uint a - uint b - uint borrow_in =
           uint (diff (sub_with_borrow a b borrow_in))
             - uint (borrow (sub_with_borrow a b borrow_in)) * 2 ^ LENGTH('w)
       \<and> uint a - uint b - uint borrow_in =
           uint (diff (sub_with_borrow_const a b borrow_in))
             - uint (borrow (sub_with_borrow_const a b borrow_in)) * 2 ^ LENGTH('w)"
  unfolding sub_with_borrow_def sub_const_uint_borrow01 [OF assms] sub_const_diff
  using sub_const_total [of a b borrow_in] by simp

text \<open>The identity at 8 bits: \<open>5 - 5 - 1 = 255 - 1 * 256\<close>.\<close>

theorem sub_with_borrow_identity_witness:
  "((1 :: 8 word) = 0 \<or> (1 :: 8 word) = 1)
   \<and> (uint (5 :: 8 word) - uint (5 :: 8 word) - uint (1 :: 8 word) =
         uint (diff (sub_with_borrow (5 :: 8 word) 5 1))
           - uint (borrow (sub_with_borrow (5 :: 8 word) 5 1)) * 2 ^ LENGTH(8)
       \<and> uint (5 :: 8 word) - uint (5 :: 8 word) - uint (1 :: 8 word) =
         uint (diff (sub_with_borrow_const (5 :: 8 word) 5 1))
           - uint (borrow (sub_with_borrow_const (5 :: 8 word) 5 1)) * 2 ^ LENGTH(8))
   \<and> sub_with_borrow (5 :: 8 word) 5 1 = \<lparr>diff = 255, borrow = 1\<rparr>"
proof -
  have h: "(1 :: 8 word) = 0 \<or> (1 :: 8 word) = 1" by simp
  have ev: "sub_with_borrow (5 :: 8 word) 5 1 = \<lparr>diff = 255, borrow = 1\<rparr>"
    by code_simp
  from sub_with_borrow_identity [OF h, of 5 5] h ev show ?thesis by blast
qed


lemma uint_01_cases:
  fixes x :: "'w::len word"
  assumes "0 \<le> uint x" "uint x \<le> 1"
  shows "x = 0 \<or> x = 1"
proof -
  from assms have "uint x = 0 \<or> uint x = 1" by arith
  then show ?thesis by (auto simp: word_uint_eq_iff)
qed

subsection \<open>The flag is a single bit\<close>

text \<open>
  Claim C4. For every width and all \<open>a\<close>, \<open>b\<close>: when \<open>carry_in\<close> is 0 or 1 the carry
  returned by \<open>add_with_carry\<close> is 0 or 1, and when \<open>borrow_in\<close> is 0 or 1 the borrow
  returned by \<open>sub_with_borrow\<close> is 0 or 1.
\<close>

theorem flag_is_zero_or_one:
  fixes a b carry_in borrow_in :: "'w::len word"
  shows "(carry_in = 0 \<or> carry_in = 1 \<longrightarrow>
            carry (add_with_carry a b carry_in) = 0 \<or> carry (add_with_carry a b carry_in) = 1)
       \<and> (borrow_in = 0 \<or> borrow_in = 1 \<longrightarrow>
            borrow (sub_with_borrow a b borrow_in) = 0
              \<or> borrow (sub_with_borrow a b borrow_in) = 1)"
proof (intro conjI impI)
  assume h: "carry_in = 0 \<or> carry_in = 1"
  have "uint (carry (add_with_carry_const a b carry_in)) \<le> 1"
    unfolding add_const_uint_carry01 [OF h] using h by (rule add_const_count_le1)
  then show "carry (add_with_carry a b carry_in) = 0 \<or> carry (add_with_carry a b carry_in) = 1"
    unfolding add_with_carry_def by (intro uint_01_cases) simp_all
next
  assume h: "borrow_in = 0 \<or> borrow_in = 1"
  have "uint (borrow (sub_with_borrow_const a b borrow_in)) \<le> 1"
    unfolding sub_const_uint_borrow01 [OF h] using h by (rule sub_const_count_le1)
  then show "borrow (sub_with_borrow a b borrow_in) = 0
      \<or> borrow (sub_with_borrow a b borrow_in) = 1"
    unfolding sub_with_borrow_def by (intro uint_01_cases) simp_all
qed

text \<open>Both implications at 16 bits, each with its hypothesis discharged.\<close>

theorem flag_is_zero_or_one_witness:
  "((1 :: 16 word) = 0 \<or> (1 :: 16 word) = 1)
   \<and> (carry (add_with_carry (65535 :: 16 word) 7 1) = 0
        \<or> carry (add_with_carry (65535 :: 16 word) 7 1) = 1)
   \<and> ((0 :: 16 word) = 0 \<or> (0 :: 16 word) = 1)
   \<and> (borrow (sub_with_borrow (65535 :: 16 word) 7 0) = 0
        \<or> borrow (sub_with_borrow (65535 :: 16 word) 7 0) = 1)"
  using flag_is_zero_or_one
      [where carry_in = "1 :: 16 word" and a = 65535 and b = 7 and borrow_in = 0]
  by simp

subsection \<open>The specialisations agree with the portable functions\<close>

text \<open>
  With an incoming flag of 0 or 1 the portable carry count is 0 or 1, and it is 1 exactly
  when the integer sum does not fit the width (the integer difference is negative).
\<close>

lemma builtin_addc_sum: "fst (builtin_addc a b c) = b + (a + c)"
  by (simp add: builtin_addc_def)

lemma builtin_subc_diff: "fst (builtin_subc a b c) = a - b - c"
  by (simp add: builtin_subc_def)

lemma builtin_addc_flag:
  fixes a b c :: "'w::len word"
  assumes "c = 0 \<or> c = 1"
  shows "snd (builtin_addc a b c) = carry (add_with_carry_const a b c)"
proof -
  let ?k = "bool_to_int (b + (a + c) < b) + bool_to_int (a + c < a)"
  have tot: "uint a + uint b + uint c = uint (b + (a + c)) + ?k * 2 ^ LENGTH('w)"
    by (rule add_const_total)
  have lo: "0 \<le> uint (b + (a + c))" and hi: "uint (b + (a + c)) < 2 ^ LENGTH('w)"
    by simp_all
  have "?k = 0 \<or> ?k = 1"
    using add_const_count_le1 [OF assms, of b a] add_const_count_ge0 [of b a c] by arith
  then show ?thesis
  proof
    assume k: "?k = 0"
    with tot hi have "uint a + uint b + uint c < 2 ^ LENGTH('w)" by simp
    then show ?thesis by (simp add: builtin_addc_def add_const_carry k)
  next
    assume k: "?k = 1"
    with tot lo have "\<not> uint a + uint b + uint c < 2 ^ LENGTH('w)" by simp
    then show ?thesis by (simp add: builtin_addc_def add_const_carry k)
  qed
qed

lemma builtin_subc_flag:
  fixes a b c :: "'w::len word"
  assumes "c = 0 \<or> c = 1"
  shows "snd (builtin_subc a b c) = borrow (sub_with_borrow_const a b c)"
proof -
  let ?k = "bool_to_int (a - b - c > a - b) + bool_to_int (a - b > a)"
  have tot: "uint a - uint b - uint c = uint (a - b - c) - ?k * 2 ^ LENGTH('w)"
    by (rule sub_const_total)
  have lo: "0 \<le> uint (a - b - c)" and hi: "uint (a - b - c) < 2 ^ LENGTH('w)"
    by simp_all
  have "?k = 0 \<or> ?k = 1"
    using sub_const_count_le1 [OF assms, of a b] sub_const_count_ge0 [of a b c] by arith
  then show ?thesis
  proof
    assume k: "?k = 0"
    with tot lo have "\<not> uint a - uint b - uint c < 0" by simp
    then show ?thesis by (simp add: builtin_subc_def sub_const_borrow k)
  next
    assume k: "?k = 1"
    with tot hi have "uint a - uint b - uint c < 0" by simp
    then show ?thesis by (simp add: builtin_subc_def sub_const_borrow k)
  qed
qed

lemma add_with_carry_builtin_eq_const:
  fixes a b c :: "'w::len word"
  assumes "c = 0 \<or> c = 1"
  shows "add_with_carry_builtin a b c = add_with_carry_const a b c"
proof -
  have "add_with_carry_builtin a b c =
      \<lparr>sum_val = fst (builtin_addc a b c), carry = snd (builtin_addc a b c)\<rparr>"
    by (simp add: add_with_carry_builtin_def Let_def split_beta)
  also have "\<dots> = \<lparr>sum_val = sum_val (add_with_carry_const a b c),
                    carry = carry (add_with_carry_const a b c)\<rparr>"
    by (simp only: builtin_addc_sum builtin_addc_flag [OF assms] add_const_sum)
  finally show ?thesis by simp
qed

lemma sub_with_borrow_builtin_eq_const:
  fixes a b c :: "'w::len word"
  assumes "c = 0 \<or> c = 1"
  shows "sub_with_borrow_builtin a b c = sub_with_borrow_const a b c"
proof -
  have "sub_with_borrow_builtin a b c =
      \<lparr>diff = fst (builtin_subc a b c), borrow = snd (builtin_subc a b c)\<rparr>"
    by (simp add: sub_with_borrow_builtin_def Let_def split_beta)
  also have "\<dots> = \<lparr>diff = diff (sub_with_borrow_const a b c),
                    borrow = borrow (sub_with_borrow_const a b c)\<rparr>"
    by (simp only: builtin_subc_diff builtin_subc_flag [OF assms] sub_const_diff)
  finally show ?thesis by simp
qed

text \<open>
  Claim C3 (arithmetic equivalence). For each of the five specialised types and all
  \<open>a\<close>, \<open>b\<close> of that type, with the incoming carry or borrow equal to 0 or 1, the
  specialisation of \<open>add_with_carry\<close> returns the pair that \<open>add_with_carry_const\<close>
  returns, and the specialisation of \<open>sub_with_borrow\<close> returns the pair that
  \<open>sub_with_borrow_const\<close> returns.
\<close>

theorem accelerated_equals_portable:
  fixes ac bc cc :: uchar and as bs cs :: ushort and ai bi ci :: uint32
    and al bl cl :: ulong and aq bq cq :: ulonglong
  shows "(cc = 0 \<or> cc = 1 \<longrightarrow>
            add_with_carry_uchar ac bc cc = add_with_carry_const ac bc cc
          \<and> sub_with_borrow_uchar ac bc cc = sub_with_borrow_const ac bc cc)
       \<and> (cs = 0 \<or> cs = 1 \<longrightarrow>
            add_with_carry_ushort as bs cs = add_with_carry_const as bs cs
          \<and> sub_with_borrow_ushort as bs cs = sub_with_borrow_const as bs cs)
       \<and> (ci = 0 \<or> ci = 1 \<longrightarrow>
            add_with_carry_uint ai bi ci = add_with_carry_const ai bi ci
          \<and> sub_with_borrow_uint ai bi ci = sub_with_borrow_const ai bi ci)
       \<and> (cl = 0 \<or> cl = 1 \<longrightarrow>
            add_with_carry_ulong al bl cl = add_with_carry_const al bl cl
          \<and> sub_with_borrow_ulong al bl cl = sub_with_borrow_const al bl cl)
       \<and> (cq = 0 \<or> cq = 1 \<longrightarrow>
            add_with_carry_ulonglong aq bq cq = add_with_carry_const aq bq cq
          \<and> sub_with_borrow_ulonglong aq bq cq = sub_with_borrow_const aq bq cq)"
  unfolding add_with_carry_uchar_def add_with_carry_ushort_def add_with_carry_uint_def
    add_with_carry_ulong_def add_with_carry_ulonglong_def
    sub_with_borrow_uchar_def sub_with_borrow_ushort_def sub_with_borrow_uint_def
    sub_with_borrow_ulong_def sub_with_borrow_ulonglong_def
  by (intro conjI impI add_with_carry_builtin_eq_const sub_with_borrow_builtin_eq_const)

text \<open>The five implications at concrete inputs, among them the all-ones operands.\<close>

theorem accelerated_equals_portable_witness:
  "((1 :: uchar) = 0 \<or> (1 :: uchar) = 1)
   \<and> add_with_carry_uchar 255 255 1 = add_with_carry_const 255 255 1
   \<and> sub_with_borrow_uchar 255 255 1 = sub_with_borrow_const 255 255 1
   \<and> ((1 :: ushort) = 0 \<or> (1 :: ushort) = 1)
   \<and> add_with_carry_ushort 65535 1 1 = add_with_carry_const 65535 1 1
   \<and> sub_with_borrow_ushort 65535 1 1 = sub_with_borrow_const 65535 1 1
   \<and> ((0 :: uint32) = 0 \<or> (0 :: uint32) = 1)
   \<and> add_with_carry_uint 4294967295 1 0 = add_with_carry_const 4294967295 1 0
   \<and> sub_with_borrow_uint 4294967295 1 0 = sub_with_borrow_const 4294967295 1 0
   \<and> ((1 :: ulong) = 0 \<or> (1 :: ulong) = 1)
   \<and> add_with_carry_ulong 18446744073709551615 0 1 = add_with_carry_const 18446744073709551615 0 1
   \<and> sub_with_borrow_ulong 18446744073709551615 0 1 = sub_with_borrow_const 18446744073709551615 0 1
   \<and> ((0 :: ulonglong) = 0 \<or> (0 :: ulonglong) = 1)
   \<and> add_with_carry_ulonglong 12 30 0 = add_with_carry_const 12 30 0
   \<and> sub_with_borrow_ulonglong 12 30 0 = sub_with_borrow_const 12 30 0"
  using accelerated_equals_portable
    [where ac = 255 and bc = 255 and cc = 1 and as = 65535 and bs = 1 and cs = 1
       and ai = 4294967295 and bi = 1 and ci = 0
       and al = 18446744073709551615 and bl = 0 and cl = 1
       and aq = 12 and bq = 30 and cq = 0]
  by simp

subsection \<open>Boundary values\<close>

text \<open>The largest value of a width, \<open>2 ^ width - 1\<close>, is the word \<open>- 1\<close>.\<close>

lemma max_word_of_int: "(word_of_int (2 ^ LENGTH('w) - 1) :: 'w::len word) = - 1"
  by simp

lemma uint_max_word: "uint (- 1 :: 'w::len word) = 2 ^ LENGTH('w) - 1"
  by (simp add: unsigned_minus_1_eq_mask mask_eq_exp_minus_1)

lemma zero_less_max_word: "(0 :: 'w::len word) < - 1"
  by (simp add: word_less_alt uint_max_word)

lemma add_const_max_max_one:
  "add_with_carry_const (- 1) (- 1) (1 :: 'w::len word) = \<lparr>sum_val = - 1, carry = 1\<rparr>"
  by (simp add: add_with_carry_const_def Let_def bool_to_int_def zero_less_max_word)

lemma sub_const_zero_zero_one:
  "sub_with_borrow_const 0 0 (1 :: 'w::len word) = \<lparr>diff = - 1, borrow = 1\<rparr>"
  by (simp add: sub_with_borrow_const_def Let_def bool_to_int_def zero_less_max_word)

text \<open>
  Claim C5 (boundary cases). For every width, with \<open>MAX = 2 ^ width - 1\<close>:
  \<open>add_with_carry(MAX, MAX, 1)\<close> returns sum \<open>MAX\<close> and carry 1, and
  \<open>sub_with_borrow(0, 0, 1)\<close> returns difference \<open>MAX\<close> and borrow 1.
\<close>

theorem boundary_cases:
  "add_with_carry (word_of_int (2 ^ LENGTH('w) - 1)) (word_of_int (2 ^ LENGTH('w) - 1))
       (1 :: 'w::len word)
     = \<lparr>sum_val = word_of_int (2 ^ LENGTH('w) - 1), carry = 1\<rparr>
   \<and> sub_with_borrow 0 0 (1 :: 'w word)
     = \<lparr>diff = word_of_int (2 ^ LENGTH('w) - 1), borrow = 1\<rparr>
   \<and> uint (word_of_int (2 ^ LENGTH('w) - 1) :: 'w word) = 2 ^ LENGTH('w) - 1"
  unfolding max_word_of_int add_with_carry_def sub_with_borrow_def
  by (simp only: add_const_max_max_one sub_const_zero_zero_one uint_max_word simp_thms)

text \<open>
  Claim C6 (zero identity). For every width and every \<open>a\<close>, \<open>add_with_carry(a, 0, 0)\<close>
  returns \<open>(a, 0)\<close> and \<open>sub_with_borrow(a, 0, 0)\<close> returns \<open>(a, 0)\<close>; the same holds
  for the two portable functions.
\<close>

theorem zero_identity:
  "add_with_carry a 0 0 = \<lparr>sum_val = a, carry = 0\<rparr>
   \<and> sub_with_borrow a 0 0 = \<lparr>diff = a, borrow = 0\<rparr>
   \<and> add_with_carry_const a 0 0 = \<lparr>sum_val = a, carry = 0\<rparr>
   \<and> sub_with_borrow_const a 0 0 = \<lparr>diff = a, borrow = 0\<rparr>"
  by (simp add: add_with_carry_def sub_with_borrow_def add_with_carry_const_def
      sub_with_borrow_const_def Let_def bool_to_int_def)

subsection \<open>Chaining limbs\<close>

text \<open>
  Claim C7 (chaining). With 64-bit limbs, adding the low limbs \<open>0xFFFFFFFFFFFFFFFF\<close> and
  \<open>1\<close> with carry-in 0, then the high limbs 0 and 0 with the carry of the low limbs,
  gives low limb 0 and high limb 1 with no further carry: the value \<open>2 ^ 64\<close>.
\<close>

theorem two_limb_chaining:
  "(let low = add_with_carry (0xFFFFFFFFFFFFFFFF :: 64 word) 0x0000000000000001 0;
        high = add_with_carry (0 :: 64 word) 0 (carry low)
    in sum_val low = 0x0000000000000000 \<and> carry low = 1
       \<and> sum_val high = 0x0000000000000001 \<and> carry high = 0
       \<and> uint (sum_val low) + uint (sum_val high) * 2 ^ 64 = 0x10000000000000000)"
  by (simp add: add_with_carry_def add_with_carry_const_def Let_def bool_to_int_def)

subsection \<open>Relations between the two portable functions\<close>

text \<open>A wrapped sum is below both summands, an exact sum below neither.\<close>

lemma wrap_detect_either:
  fixes x y :: "'w::len word"
  shows "x + y < x \<longleftrightarrow> x + y < y"
proof -
  have "bool_to_int (x + y < x) * 2 ^ LENGTH('w) = bool_to_int (x + y < y) * (2 ^ LENGTH('w) :: int)"
    using add_stage [of x y] add_stage_swap [of y x] by (simp add: add.commute)
  then have "bool_to_int (x + y < x) = bool_to_int (x + y < y)" by simp
  then show ?thesis by (simp only: bool_to_int_eq_iff)
qed

text \<open>
  Claim C8 (round trip). For every width and all \<open>a\<close>, \<open>b\<close>: if
  \<open>add_with_carry_const(a, b, 0)\<close> returns \<open>(s, c)\<close> then
  \<open>sub_with_borrow_const(s, b, 0)\<close> returns \<open>(a, c)\<close>.
\<close>

theorem add_then_sub_round_trip:
  fixes a b :: "'w::len word"
  shows "sub_with_borrow_const (sum_val (add_with_carry_const a b 0)) b 0
     = \<lparr>diff = a, borrow = carry (add_with_carry_const a b 0)\<rparr>"
  using wrap_detect_either [of b a]
  by (simp add: add_with_carry_const_def sub_with_borrow_const_def Let_def bool_to_int_def)

text \<open>
  Claim C9 (any incoming flag). For every width and all \<open>a\<close>, \<open>b\<close> and every
  \<open>carry_in\<close> of that width, \<open>add_with_carry_const\<close> satisfies
  \<open>a + b + carry_in = sum + carry_out * 2 ^ width\<close> over the integers with \<open>carry_out\<close>
  among 0, 1, 2; and for every \<open>borrow_in\<close>, \<open>sub_with_borrow_const\<close> satisfies
  \<open>a - b - borrow_in = diff - borrow_out * 2 ^ width\<close> with \<open>borrow_out\<close> among 0, 1, 2.
\<close>

theorem identity_for_any_flag_in:
  fixes a b carry_in borrow_in :: "'w::len word"
  shows "uint a + uint b + uint carry_in =
           uint (sum_val (add_with_carry_const a b carry_in))
             + uint (carry (add_with_carry_const a b carry_in)) * 2 ^ LENGTH('w)
       \<and> uint (carry (add_with_carry_const a b carry_in)) \<in> {0, 1, 2}
       \<and> uint a - uint b - uint borrow_in =
           uint (diff (sub_with_borrow_const a b borrow_in))
             - uint (borrow (sub_with_borrow_const a b borrow_in)) * 2 ^ LENGTH('w)
       \<and> uint (borrow (sub_with_borrow_const a b borrow_in)) \<in> {0, 1, 2}"
proof (intro conjI)
  show "uint a + uint b + uint carry_in =
           uint (sum_val (add_with_carry_const a b carry_in))
             + uint (carry (add_with_carry_const a b carry_in)) * 2 ^ LENGTH('w)"
    unfolding add_const_uint_carry_any add_const_sum by (rule add_const_total)
  show "uint (carry (add_with_carry_const a b carry_in)) \<in> {0, 1, 2}"
    unfolding add_const_uint_carry_any by (simp add: bool_to_int_def)
  show "uint a - uint b - uint borrow_in =
           uint (diff (sub_with_borrow_const a b borrow_in))
             - uint (borrow (sub_with_borrow_const a b borrow_in)) * 2 ^ LENGTH('w)"
    unfolding sub_const_uint_borrow_any sub_const_diff by (rule sub_const_total)
  show "uint (borrow (sub_with_borrow_const a b borrow_in)) \<in> {0, 1, 2}"
    unfolding sub_const_uint_borrow_any by (simp add: bool_to_int_def)
qed

text \<open>The value 2 occurs, at 8 bits with all three operands out of the 0/1 range.\<close>

lemma carry_two_attained:
  "add_with_carry_const (255 :: 8 word) 255 255 = \<lparr>sum_val = 253, carry = 2\<rparr>
   \<and> sub_with_borrow_const (0 :: 8 word) 255 255 = \<lparr>diff = 2, borrow = 2\<rparr>"
  by code_simp

text \<open>
  Claim C10 (commutativity). For every width and all \<open>a\<close>, \<open>b\<close>, \<open>carry_in\<close>,
  \<open>add_with_carry_const(a, b, carry_in)\<close> and \<open>add_with_carry_const(b, a, carry_in)\<close>
  return the same sum and the same carry.
\<close>

theorem add_with_carry_const_commute:
  fixes a b carry_in :: "'w::len word"
  shows "add_with_carry_const a b carry_in = add_with_carry_const b a carry_in"
proof -
  let ?k = "bool_to_int (b + (a + carry_in) < b) + bool_to_int (a + carry_in < a)"
  let ?k' = "bool_to_int (a + (b + carry_in) < a) + bool_to_int (b + carry_in < b)"
  have s: "b + (a + carry_in) = a + (b + carry_in)" by (simp add: ac_simps)
  have "uint (b + (a + carry_in)) + ?k * 2 ^ LENGTH('w)
      = uint (a + (b + carry_in)) + ?k' * 2 ^ LENGTH('w)"
    using add_const_total [of a b carry_in] add_const_total [of b a carry_in] by simp
  then have "?k * (2 ^ LENGTH('w) :: int) = ?k' * 2 ^ LENGTH('w)"
    by (simp only: s add_left_cancel)
  then have k: "?k = ?k'" by simp
  have "sum_val (add_with_carry_const a b carry_in) = sum_val (add_with_carry_const b a carry_in)"
    unfolding add_const_sum by (rule s)
  moreover have "carry (add_with_carry_const a b carry_in) = carry (add_with_carry_const b a carry_in)"
    unfolding add_const_carry by (simp only: k)
  ultimately show ?thesis by simp
qed

end
